theory Spec2Isabelle
  imports Complex_Main "HOL-Library.Multiset"
begin

section \<open>Common data: errors, time, settings\<close>

text \<open>
  Python exceptions that the modelled functions can raise. A failing Redis command
  (connection refused, timeout) is \<open>StorageUnavailable\<close>.
\<close>

datatype error = StorageUnavailable | ZeroDivisionError | IndexError | KeyError
  | TypeError | ValueError | OverflowError

text \<open>
  A naive \<open>datetime\<close> is its number of microseconds since a fixed epoch (the resolution of
  Python's \<open>datetime\<close>); \<open>timedelta\<close> arithmetic is integer arithmetic on it and
  \<open>strftime('%Y-%m-%d')\<close> is the number of the calendar day. Python floats are modelled
  as reals.
\<close>

type_synonym datetime = int

definition day_us :: int where
  "day_us = 86400000000"

definition hour_us :: int where
  "hour_us = 3600000000"

definition date_of :: "datetime \<Rightarrow> int" where
  "date_of t = t div day_us"

text \<open>
  The epoch is 1 January 1970. Python's \<open>datetime\<close> ranges from year 1 to year 9999, and
  a \<open>timedelta\<close> holds at most 999999999 days in either direction: building a larger
  one, or leaving the range of \<open>datetime\<close> by a subtraction, raises \<open>OverflowError\<close>.
\<close>

definition datetime_min :: datetime where
  "datetime_min = - 62135596800000000"

definition datetime_max :: datetime where
  "datetime_max = 253402300799999999"

text \<open>\<open>end_time - timedelta(hours=hours)\<close>, the start of a window of \<open>hours\<close> hours.\<close>

definition window_start :: "datetime \<Rightarrow> int \<Rightarrow> error + datetime" where
  "window_start end_time hours =
     (if hours div 24 < - 999999999 \<or> 999999999 < hours div 24 then Inl OverflowError
      else if end_time - hours * hour_us < datetime_min
              \<or> datetime_max < end_time - hours * hour_us then Inl OverflowError
      else Inr (end_time - hours * hour_us))"

text \<open>The fields of \<open>Settings\<close> (config/settings.py) that the modelled code reads.\<close>

record settings =
  cost_alert_threshold :: real
  ab_test_enabled :: bool
  prompt_cache_ttl :: nat

definition default_settings :: settings where
  "default_settings =
     \<lparr>cost_alert_threshold = 100, ab_test_enabled = True, prompt_cache_ttl = 3600\<rparr>"

section \<open>Rate table and cost estimator\<close>

datatype ModelProvider = OPENAI | ANTHROPIC | AZURE_OPENAI

datatype cfg_value = ProviderV ModelProvider | IntV int | FloatV real

text \<open>\<open>MODEL_CONFIGS\<close>: a dict of dicts, in source order.\<close>

definition MODEL_CONFIGS :: "(string \<times> (string \<times> cfg_value) list) list" where
  "MODEL_CONFIGS =
     [(''gpt-4'',
        [(''provider'', ProviderV OPENAI), (''max_tokens'', IntV 8192),
         (''temperature'', FloatV 0.7), (''cost_per_1k_tokens'', FloatV 0.03)]),
      (''gpt-3.5-turbo'',
        [(''provider'', ProviderV OPENAI), (''max_tokens'', IntV 4096),
         (''temperature'', FloatV 0.7), (''cost_per_1k_tokens'', FloatV 0.002)]),
      (''claude-3-opus'',
        [(''provider'', ProviderV ANTHROPIC), (''max_tokens'', IntV 4096),
         (''temperature'', FloatV 0.7), (''cost_per_1k_tokens'', FloatV 0.015)]),
      (''claude-3-sonnet'',
        [(''provider'', ProviderV ANTHROPIC), (''max_tokens'', IntV 4096),
         (''temperature'', FloatV 0.7), (''cost_per_1k_tokens'', FloatV 0.003)])]"

text \<open>
  \<open>MODEL_CONFIGS.get(model_name, MODEL_CONFIGS["gpt-4"])\<close>: the default argument is
  evaluated first (a missing \<open>gpt-4\<close> entry would raise \<open>KeyError\<close>).
\<close>

definition get_model_config :: "string \<Rightarrow> error + (string \<times> cfg_value) list" where
  "get_model_config model_name =
     (case map_of MODEL_CONFIGS ''gpt-4'' of
        None \<Rightarrow> Inl KeyError
      | Some dflt \<Rightarrow>
          (case map_of MODEL_CONFIGS model_name of
             None \<Rightarrow> Inr dflt
           | Some cfg \<Rightarrow> Inr cfg))"

text \<open>Multiplying a float by a configuration value: a provider (a string enum) is a type error.\<close>

fun float_times :: "real \<Rightarrow> cfg_value \<Rightarrow> error + real" where
  "float_times x (FloatV r) = Inr (x * r)"
| "float_times x (IntV i) = Inr (x * real_of_int i)"
| "float_times x (ProviderV p) = Inl TypeError"

definition calculate_cost :: "string \<Rightarrow> int \<Rightarrow> int \<Rightarrow> error + real" where
  "calculate_cost model_name input_tokens output_tokens =
     (case get_model_config model_name of
        Inl e \<Rightarrow> Inl e
      | Inr model_config \<Rightarrow>
          (let cost_per_1k =
                 (case map_of model_config ''cost_per_1k_tokens'' of
                    None \<Rightarrow> FloatV 0
                  | Some v \<Rightarrow> v);
               total_tokens = input_tokens + output_tokens
           in float_times (real_of_int total_tokens / 1000) cost_per_1k))"

section \<open>Telemetry store\<close>

record LLMRequest =
  request_id :: string
  model_name :: string
  model_version :: string
  prompt_id :: "string option"
  user_id :: "string option"
  timestamp :: datetime
  input_tokens :: int
  output_tokens :: int
  latency_ms :: real
  cost_usd :: real
  success :: bool
  error_message :: "string option"
  metadata :: "(string \<times> string) list"

text \<open>
  The Redis keys the monitor uses: \<open>request:<id>\<close>, \<open>requests:<date>\<close> and
  \<open>model_requests:<model>:<date>\<close>. The store is its content at one moment: a key that
  has expired is absent. \<open>strings\<close> holds the JSON text of a record (read back field by
  field with \<open>json.loads\<close>), \<open>lists\<close> the index lists (an absent list is empty),
  \<open>ttl\<close> the expiry set on a key in seconds, and \<open>available\<close> tells whether commands
  reach the server during the call.
\<close>

datatype key = RequestKey string | DateKey int | ModelDateKey string int

record redis =
  available :: bool
  strings :: "key \<rightharpoonup> LLMRequest"
  lists :: "key \<Rightarrow> string list"
  ttl :: "key \<rightharpoonup> nat"

definition redis_setex :: "redis \<Rightarrow> key \<Rightarrow> nat \<Rightarrow> LLMRequest \<Rightarrow> error + redis" where
  "redis_setex st k secs v =
     (if available st
      then Inr (st\<lparr>strings := (strings st)(k \<mapsto> v), ttl := (ttl st)(k \<mapsto> secs)\<rparr>)
      else Inl StorageUnavailable)"

definition redis_lpush :: "redis \<Rightarrow> key \<Rightarrow> string \<Rightarrow> error + redis" where
  "redis_lpush st k x =
     (if available st
      then Inr (st\<lparr>lists := (lists st)(k := x # lists st k)\<rparr>)
      else Inl StorageUnavailable)"

definition redis_expire :: "redis \<Rightarrow> key \<Rightarrow> nat \<Rightarrow> error + redis" where
  "redis_expire st k secs =
     (if available st
      then Inr (if strings st k = None \<and> lists st k = [] then st
                else st\<lparr>ttl := (ttl st)(k \<mapsto> secs)\<rparr>)
      else Inl StorageUnavailable)"

definition redis_get :: "redis \<Rightarrow> key \<Rightarrow> error + LLMRequest option" where
  "redis_get st k = (if available st then Inr (strings st k) else Inl StorageUnavailable)"

text \<open>\<open>lrange(key, 0, -1)\<close>: the whole list.\<close>

definition redis_lrange :: "redis \<Rightarrow> key \<Rightarrow> error + string list" where
  "redis_lrange st k = (if available st then Inr (lists st k) else Inl StorageUnavailable)"

text \<open>The body of the \<open>try\<close> block of \<open>_save_request\<close>: five commands in sequence.\<close>

definition save_request_body :: "redis \<Rightarrow> LLMRequest \<Rightarrow> error + redis" where
  "save_request_body st request =
     (case redis_setex st (RequestKey (request_id request)) 86400 request of
        Inl e \<Rightarrow> Inl e
      | Inr s1 \<Rightarrow>
     (case redis_lpush s1 (DateKey (date_of (timestamp request))) (request_id request) of
        Inl e \<Rightarrow> Inl e
      | Inr s2 \<Rightarrow>
     (case redis_expire s2 (DateKey (date_of (timestamp request))) 2592000 of
        Inl e \<Rightarrow> Inl e
      | Inr s3 \<Rightarrow>
     (case redis_lpush s3 (ModelDateKey (model_name request) (date_of (timestamp request)))
             (request_id request) of
        Inl e \<Rightarrow> Inl e
      | Inr s4 \<Rightarrow>
          redis_expire s4 (ModelDateKey (model_name request) (date_of (timestamp request)))
            2592000))))"

text \<open>
  \<open>_save_request\<close>: the outcome (an exception that leaves the function, or a normal
  return), the store afterwards, and the errors written to the log by the
  \<open>except Exception\<close> handler.
\<close>

definition save_request :: "redis \<Rightarrow> LLMRequest \<Rightarrow> (error + unit) \<times> redis \<times> error list" where
  "save_request st request =
     (case save_request_body st request of
        Inl e \<Rightarrow> (Inr (), st, [e])
      | Inr st' \<Rightarrow> (Inr (), st', []))"

section \<open>Metrics aggregator\<close>

record CostMetrics =
  total_cost_usd :: real
  cost_per_request :: real
  cost_per_token :: real
  requests_count :: nat
  tokens_count :: int
  period_start :: datetime
  period_end :: datetime

text \<open>
  The key of the day's index list: the model's list when a non-empty model name is given
  (\<open>if model_name:\<close>), the global one otherwise.
\<close>

definition date_key :: "string option \<Rightarrow> datetime \<Rightarrow> key" where
  "date_key model cur =
     (case model of
        None \<Rightarrow> DateKey (date_of cur)
      | Some m \<Rightarrow> if m = [] then DateKey (date_of cur) else ModelDateKey m (date_of cur))"

text \<open>The inner loop of \<open>get_cost_metrics\<close> over the ids of one day.\<close>

fun add_costs :: "redis \<Rightarrow> string list \<Rightarrow> real \<times> nat \<times> int \<Rightarrow> error + real \<times> nat \<times> int" where
  "add_costs st [] acc = Inr acc"
| "add_costs st (rid # rids) (total_cost, total_reqs, total_tokens) =
     (case redis_get st (RequestKey rid) of
        Inl e \<Rightarrow> Inl e
      | Inr None \<Rightarrow> add_costs st rids (total_cost, total_reqs, total_tokens)
      | Inr (Some r) \<Rightarrow>
          add_costs st rids
            (total_cost + cost_usd r, total_reqs + 1,
             total_tokens + (input_tokens r + output_tokens r)))"

text \<open>The \<open>while current_date <= end_date\<close> loop of \<open>get_cost_metrics\<close>.\<close>

function cost_days ::
  "redis \<Rightarrow> string option \<Rightarrow> datetime \<Rightarrow> datetime \<Rightarrow> real \<times> nat \<times> int
     \<Rightarrow> error + real \<times> nat \<times> int" where
  "cost_days st model cur end_date acc =
     (if cur \<le> end_date then
        (case redis_lrange st (date_key model cur) of
           Inl e \<Rightarrow> Inl e
         | Inr request_ids \<Rightarrow>
             (case add_costs st request_ids acc of
                Inl e \<Rightarrow> Inl e
              | Inr acc' \<Rightarrow> cost_days st model (cur + day_us) end_date acc'))
      else Inr acc)"
  by pat_completeness auto
termination
  by (relation "measure (\<lambda>(st, model, cur, end_date, acc). nat (end_date - cur + 1))")
    (auto simp: day_us_def)

declare cost_days.simps [simp del]

text \<open>
  \<open>get_cost_metrics\<close>. \<open>now1\<close> and \<open>now2\<close> are the two readings of the clock that the
  defaults of \<open>start_date\<close> and \<open>end_date\<close> take.
\<close>

definition get_cost_metrics ::
  "redis \<Rightarrow> datetime \<Rightarrow> datetime \<Rightarrow> string option \<Rightarrow> datetime option \<Rightarrow> datetime option
     \<Rightarrow> error + CostMetrics" where
  "get_cost_metrics st now1 now2 model start_opt end_opt =
     (let start_date = (case start_opt of None \<Rightarrow> now1 - day_us | Some s \<Rightarrow> s);
          end_date = (case end_opt of None \<Rightarrow> now2 | Some e \<Rightarrow> e)
      in case cost_days st model start_date end_date (0, 0, 0) of
           Inl e \<Rightarrow> Inl e
         | Inr (total_cost, total_reqs, total_tokens) \<Rightarrow>
             Inr \<lparr>total_cost_usd = total_cost,
                  cost_per_request =
                    (if total_reqs > 0 then total_cost / real total_reqs else 0),
                  cost_per_token =
                    (if total_tokens > 0 then total_cost / real_of_int total_tokens else 0),
                  requests_count = total_reqs,
                  tokens_count = total_tokens,
                  period_start = start_date,
                  period_end = end_date\<rparr>)"

text \<open>
  The result dict of \<open>get_performance_metrics\<close>; the last three keys are present only
  when requests were found.
\<close>

record PerformanceMetrics =
  avg_latency_ms :: real
  success_rate :: real
  requests_per_hour :: real
  total_requests :: nat
  min_latency_ms :: "real option"
  max_latency_ms :: "real option"
  p95_latency_ms :: "real option"

text \<open>The inner loop of \<open>get_performance_metrics\<close>: the records stamped inside the window.\<close>

fun collect_requests ::
  "redis \<Rightarrow> string list \<Rightarrow> datetime \<Rightarrow> datetime \<Rightarrow> LLMRequest list \<Rightarrow> error + LLMRequest list" where
  "collect_requests st [] start_time end_time requests = Inr requests"
| "collect_requests st (rid # rids) start_time end_time requests =
     (case redis_get st (RequestKey rid) of
        Inl e \<Rightarrow> Inl e
      | Inr None \<Rightarrow> collect_requests st rids start_time end_time requests
      | Inr (Some r) \<Rightarrow>
          (if start_time \<le> timestamp r \<and> timestamp r \<le> end_time
           then collect_requests st rids start_time end_time (requests @ [r])
           else collect_requests st rids start_time end_time requests))"

function perf_days ::
  "redis \<Rightarrow> string option \<Rightarrow> datetime \<Rightarrow> datetime \<Rightarrow> datetime \<Rightarrow> LLMRequest list
     \<Rightarrow> error + LLMRequest list" where
  "perf_days st model cur start_time end_time requests =
     (if cur \<le> end_time then
        (case redis_lrange st (date_key model cur) of
           Inl e \<Rightarrow> Inl e
         | Inr request_ids \<Rightarrow>
             (case collect_requests st request_ids start_time end_time requests of
                Inl e \<Rightarrow> Inl e
              | Inr requests' \<Rightarrow> perf_days st model (cur + day_us) start_time end_time requests'))
      else Inr requests)"
  by pat_completeness auto
termination
  by (relation "measure (\<lambda>(st, model, cur, start_time, end_time, requests).
                  nat (end_time - cur + 1))")
    (auto simp: day_us_def)

declare perf_days.simps [simp del]

text \<open>\<open>min\<close> and \<open>max\<close> of a list raise \<open>ValueError\<close> on the empty list.\<close>

fun py_min :: "real list \<Rightarrow> error + real" where
  "py_min [] = Inl ValueError"
| "py_min (x # xs) = Inr (fold min xs x)"

fun py_max :: "real list \<Rightarrow> error + real" where
  "py_max [] = Inl ValueError"
| "py_max (x # xs) = Inr (fold max xs x)"

text \<open>
  \<open>sorted(latencies)[int(len(latencies) * 0.95)]\<close>; \<open>int\<close> truncates, which on a
  non-negative number is the floor. An index past the end raises \<open>IndexError\<close>.
\<close>

definition percentile95 :: "real list \<Rightarrow> error + real" where
  "percentile95 latencies =
     (let sorted_latencies = sort latencies;
          i = nat \<lfloor>real (length latencies) * 0.95\<rfloor>
      in if i < length sorted_latencies then Inr (sorted_latencies ! i) else Inl IndexError)"

definition no_requests :: PerformanceMetrics where
  "no_requests =
     \<lparr>avg_latency_ms = 0, success_rate = 0, requests_per_hour = 0, total_requests = 0,
      min_latency_ms = None, max_latency_ms = None, p95_latency_ms = None\<rparr>"

text \<open>
  The dict built from a non-empty list of requests, its entries evaluated in the source's
  order: \<open>len(requests) / hours\<close> raises \<open>ZeroDivisionError\<close> when \<open>hours\<close> is 0.
\<close>

definition summarise :: "LLMRequest list \<Rightarrow> int \<Rightarrow> error + PerformanceMetrics" where
  "summarise requests hours =
     (let latencies = map latency_ms requests;
          successes = map success requests
      in if hours = 0 then Inl ZeroDivisionError
         else
           (case py_min latencies of Inl e \<Rightarrow> Inl e | Inr lo \<Rightarrow>
           (case py_max latencies of Inl e \<Rightarrow> Inl e | Inr hi \<Rightarrow>
           (case percentile95 latencies of Inl e \<Rightarrow> Inl e | Inr p95 \<Rightarrow>
              Inr \<lparr>avg_latency_ms = sum_list latencies / real (length latencies),
                   success_rate = real (length (filter id successes)) / real (length successes),
                   requests_per_hour = real (length requests) / real_of_int hours,
                   total_requests = length requests,
                   min_latency_ms = Some lo,
                   max_latency_ms = Some hi,
                   p95_latency_ms = Some p95\<rparr>))))"

definition get_performance_metrics ::
  "redis \<Rightarrow> datetime \<Rightarrow> string option \<Rightarrow> int \<Rightarrow> error + PerformanceMetrics" where
  "get_performance_metrics st now model hours =
     (let end_time = now
      in case window_start end_time hours of
           Inl e \<Rightarrow> Inl e
         | Inr start_time \<Rightarrow>
             (case perf_days st model start_time start_time end_time [] of
                Inl e \<Rightarrow> Inl e
              | Inr requests \<Rightarrow>
                  if requests = [] then Inr no_requests else summarise requests hours))"

section \<open>Alerting\<close>

text \<open>
  An alert dict. \<open>message\<close> keeps the two numbers that the source formats into its text:
  the total cost and the threshold.
\<close>

record alert =
  alert_type :: string
  message :: "real \<times> real"
  severity :: string
  alert_timestamp :: datetime

text \<open>
  \<open>check_cost_alerts\<close>; the clock is read three times: for the start of the period, for
  its end, and for the alert's timestamp.
\<close>

definition check_cost_alerts ::
  "settings \<Rightarrow> redis \<Rightarrow> datetime \<Rightarrow> datetime \<Rightarrow> datetime \<Rightarrow> error + alert list" where
  "check_cost_alerts cfg st now1 now2 now3 =
     (case get_cost_metrics st now1 now2 None (Some (now1 - day_us)) (Some now2) of
        Inl e \<Rightarrow> Inl e
      | Inr daily_metrics \<Rightarrow>
          (if total_cost_usd daily_metrics > cost_alert_threshold cfg
           then Inr [\<lparr>alert_type = ''cost_alert'',
                      message = (total_cost_usd daily_metrics, cost_alert_threshold cfg),
                      severity = ''high'',
                      alert_timestamp = now3\<rparr>]
           else Inr []))"

section \<open>Error summary\<close>

record ErrorSummary =
  total_errors :: nat
  error_types :: "string option \<rightharpoonup> nat"
  error_rate :: real

fun collect_errors ::
  "redis \<Rightarrow> string list \<Rightarrow> datetime \<Rightarrow> datetime \<Rightarrow> LLMRequest list \<Rightarrow> error + LLMRequest list" where
  "collect_errors st [] start_time end_time errors = Inr errors"
| "collect_errors st (rid # rids) start_time end_time errors =
     (case redis_get st (RequestKey rid) of
        Inl e \<Rightarrow> Inl e
      | Inr None \<Rightarrow> collect_errors st rids start_time end_time errors
      | Inr (Some r) \<Rightarrow>
          (if start_time \<le> timestamp r \<and> timestamp r \<le> end_time \<and> \<not> success r
           then collect_errors st rids start_time end_time (errors @ [r])
           else collect_errors st rids start_time end_time errors))"

function error_days ::
  "redis \<Rightarrow> datetime \<Rightarrow> datetime \<Rightarrow> datetime \<Rightarrow> LLMRequest list \<Rightarrow> error + LLMRequest list" where
  "error_days st cur start_time end_time errors =
     (if cur \<le> end_time then
        (case redis_lrange st (DateKey (date_of cur)) of
           Inl e \<Rightarrow> Inl e
         | Inr request_ids \<Rightarrow>
             (case collect_errors st request_ids start_time end_time errors of
                Inl e \<Rightarrow> Inl e
              | Inr errors' \<Rightarrow> error_days st (cur + day_us) start_time end_time errors'))
      else Inr errors)"
  by pat_completeness auto
termination
  by (relation "measure (\<lambda>(st, cur, start_time, end_time, errors). nat (end_time - cur + 1))")
    (auto simp: day_us_def)

declare error_days.simps [simp del]

text \<open>The loop that counts the errors by message.\<close>

fun count_error_types ::
  "LLMRequest list \<Rightarrow> (string option \<rightharpoonup> nat) \<Rightarrow> (string option \<rightharpoonup> nat)" where
  "count_error_types [] types = types"
| "count_error_types (e # es) types =
     count_error_types es
       (types(error_message e \<mapsto> (case types (error_message e) of None \<Rightarrow> 0 | Some c \<Rightarrow> c) + 1))"

definition get_error_summary :: "redis \<Rightarrow> datetime \<Rightarrow> int \<Rightarrow> error + ErrorSummary" where
  "get_error_summary st now hours =
     (let end_time = now
      in case window_start end_time hours of
           Inl e \<Rightarrow> Inl e
         | Inr start_time \<Rightarrow>
             (case error_days st start_time start_time end_time [] of
                Inl e \<Rightarrow> Inl e
              | Inr errors \<Rightarrow>
                  Inr \<lparr>total_errors = length errors,
                       error_types = count_error_types errors Map.empty,
                       error_rate =
                         real (length errors) / real (max 1 (length errors + 100))\<rparr>))"

section \<open>Prompt manager and experiment assignment\<close>

datatype PromptStatus = DRAFT | ACTIVE | TESTING | DEPRECATED

text \<open>The dataclass \<open>PromptVersion\<close>; its field \<open>id\<close> is \<open>prompt_version_id\<close> here.\<close>

record PromptVersion =
  prompt_version_id :: string
  template_name :: string
  version :: string
  template :: string
  variables :: "string list"
  status :: PromptStatus
  created_at :: datetime
  updated_at :: datetime
  performance_metrics :: "(string \<times> real) list"
  description :: "string option"
  tags :: "string list"

text \<open>The dict \<open>ab_test_config\<close> that \<open>start_ab_test\<close> stores as JSON.\<close>

record ab_test_config =
  ab_template_name :: string
  prompt_a :: string
  prompt_b :: string
  traffic_split :: real
  started_at :: datetime
  active :: bool

text \<open>
  The state of a \<open>PromptManager\<close>: the dict \<open>self.prompts\<close> in insertion order, and
  the part of Redis it uses, the keys \<open>ab_test:<template_name>\<close> and \<open>prompt:<id>\<close>, each
  value with the expiry it was stored with.
\<close>

record PromptManager =
  prompts :: "(string \<times> PromptVersion) list"
  redis_available :: bool
  ab_tests :: "string \<rightharpoonup> nat \<times> ab_test_config"
  stored_prompts :: "string \<rightharpoonup> nat \<times> PromptVersion"

definition get_prompt :: "PromptManager \<Rightarrow> string \<Rightarrow> PromptVersion option" where
  "get_prompt pm pid = map_of (prompts pm) pid"

definition get_active_prompt :: "PromptManager \<Rightarrow> string \<Rightarrow> PromptVersion option" where
  "get_active_prompt pm name =
     (case filter (\<lambda>p. template_name p = name \<and> status p = ACTIVE) (map snd (prompts pm)) of
        [] \<Rightarrow> None
      | p # _ \<Rightarrow> Some p)"

text \<open>\<open>_save_prompt\<close>: a Redis failure is printed and swallowed.\<close>

definition save_prompt :: "settings \<Rightarrow> PromptManager \<Rightarrow> PromptVersion \<Rightarrow> PromptManager" where
  "save_prompt cfg pm p =
     (if redis_available pm
      then pm\<lparr>stored_prompts :=
                (stored_prompts pm)(prompt_version_id p \<mapsto> (prompt_cache_ttl cfg, p))\<rparr>
      else pm)"

text \<open>An assignment to a field of the prompt object stored under a key of \<open>self.prompts\<close>.\<close>

definition modify_prompt ::
  "string \<Rightarrow> (PromptVersion \<Rightarrow> PromptVersion) \<Rightarrow> (string \<times> PromptVersion) list
     \<Rightarrow> (string \<times> PromptVersion) list" where
  "modify_prompt pid f ps = map (\<lambda>(k, p). if k = pid then (k, f p) else (k, p)) ps"

text \<open>
  \<open>start_ab_test\<close>: the returned value or the exception, and the state afterwards. The
  clock is read for each prompt's \<open>updated_at\<close> and for \<open>started_at\<close>. The last
  \<open>setex\<close> is outside any \<open>try\<close>.
\<close>

definition start_ab_test ::
  "settings \<Rightarrow> PromptManager \<Rightarrow> datetime \<Rightarrow> datetime \<Rightarrow> datetime \<Rightarrow> string \<Rightarrow> string \<Rightarrow> string
     \<Rightarrow> real \<Rightarrow> (error + bool) \<times> PromptManager" where
  "start_ab_test cfg pm now_a now_b now_s name prompt_id_a prompt_id_b split =
     (if \<not> ab_test_enabled cfg then (Inr False, pm)
      else
        (case get_prompt pm prompt_id_a of
           None \<Rightarrow> (Inr False, pm)
         | Some _ \<Rightarrow>
        (case get_prompt pm prompt_id_b of
           None \<Rightarrow> (Inr False, pm)
         | Some _ \<Rightarrow>
             (let ps1 = modify_prompt prompt_id_a (\<lambda>p. p\<lparr>status := TESTING\<rparr>) (prompts pm);
                  ps2 = modify_prompt prompt_id_b (\<lambda>p. p\<lparr>status := TESTING\<rparr>) ps1;
                  ps3 = modify_prompt prompt_id_a (\<lambda>p. p\<lparr>updated_at := now_a\<rparr>) ps2;
                  ps4 = modify_prompt prompt_id_b (\<lambda>p. p\<lparr>updated_at := now_b\<rparr>) ps3;
                  pm1 = pm\<lparr>prompts := ps4\<rparr>;
                  pm2 = (case get_prompt pm1 prompt_id_a of
                           None \<Rightarrow> pm1 | Some p \<Rightarrow> save_prompt cfg pm1 p);
                  pm3 = (case get_prompt pm2 prompt_id_b of
                           None \<Rightarrow> pm2 | Some p \<Rightarrow> save_prompt cfg pm2 p);
                  config = \<lparr>ab_template_name = name, prompt_a = prompt_id_a,
                            prompt_b = prompt_id_b, traffic_split = split,
                            started_at = now_s, active = True\<rparr>
              in if redis_available pm3
                 then (Inr True, pm3\<lparr>ab_tests := (ab_tests pm3)(name \<mapsto> (86400, config))\<rparr>)
                 else (Inl StorageUnavailable, pm3)))))"

text \<open>
  \<open>get_ab_test_prompt\<close>. \<open>py_hash\<close> is the interpreter's \<open>hash\<close> on strings and \<open>rnd\<close>
  the value that \<open>random.random()\<close> draws in this call, a number in \<open>[0, 1)\<close>. Python's
  \<open>%\<close> with a positive modulus is never negative, as \<open>mod\<close> on \<open>int\<close>. A user id that
  is \<open>None\<close> or the empty string is false in \<open>if user_id:\<close>.
\<close>

definition get_ab_test_prompt ::
  "(string \<Rightarrow> int) \<Rightarrow> real \<Rightarrow> PromptManager \<Rightarrow> string \<Rightarrow> string option
     \<Rightarrow> error + PromptVersion option" where
  "get_ab_test_prompt py_hash rnd pm name uid =
     (if \<not> redis_available pm then Inl StorageUnavailable
      else
        (case ab_tests pm name of
           None \<Rightarrow> Inr (get_active_prompt pm name)
         | Some (secs, config) \<Rightarrow>
             if \<not> active config then Inr (get_active_prompt pm name)
             else
               (let use_version_b =
                      (case uid of
                         None \<Rightarrow> rnd < traffic_split config
                       | Some u \<Rightarrow>
                           if u = [] then rnd < traffic_split config
                           else real_of_int (py_hash u mod 100) < traffic_split config * 100);
                    pid = (if use_version_b then prompt_b config else prompt_a config)
                in Inr (get_prompt pm pid))))"

section \<open>What the scans read\<close>

text \<open>
  The instants that the day loops visit: the start, then one day later each time, as long
  as the instant is not after the end.
\<close>

function loop_instants :: "datetime \<Rightarrow> datetime \<Rightarrow> datetime list" where
  "loop_instants cur end_date =
     (if cur \<le> end_date then cur # loop_instants (cur + day_us) end_date else [])"
  by pat_completeness auto
termination
  by (relation "measure (\<lambda>(cur, end_date). nat (end_date - cur + 1))") (auto simp: day_us_def)

declare loop_instants.simps [simp del]

text \<open>The ids whose record is still stored, replaced by their records, in order.\<close>

fun live_records :: "redis \<Rightarrow> string list \<Rightarrow> LLMRequest list" where
  "live_records st [] = []"
| "live_records st (rid # rids) =
     (case strings st (RequestKey rid) of
        None \<Rightarrow> live_records st rids
      | Some r \<Rightarrow> r # live_records st rids)"

text \<open>The records a day loop from \<open>cur\<close> to \<open>end_date\<close> reads.\<close>

definition scanned_records :: "redis \<Rightarrow> string option \<Rightarrow> datetime \<Rightarrow> datetime \<Rightarrow> LLMRequest list" where
  "scanned_records st model cur end_date =
     concat (map (\<lambda>c. live_records st (lists st (date_key model c))) (loop_instants cur end_date))"

definition in_window :: "datetime \<Rightarrow> datetime \<Rightarrow> LLMRequest \<Rightarrow> bool" where
  "in_window start_time end_time r = (start_time \<le> timestamp r \<and> timestamp r \<le> end_time)"

text \<open>The rate the table configures for a model name, the \<open>gpt-4\<close> entry being the default.\<close>

definition configured_rate :: "string \<Rightarrow> real" where
  "configured_rate name =
     (if name = ''gpt-3.5-turbo'' then 0.002
      else if name = ''claude-3-opus'' then 0.015
      else if name = ''claude-3-sonnet'' then 0.003
      else 0.03)"

section \<open>Sample data\<close>

definition sample_prompt :: "string \<Rightarrow> PromptVersion" where
  "sample_prompt pid =
     \<lparr>prompt_version_id = pid, template_name = ''greeting'', version = ''v1'',
      template = ''Hello {name}'', variables = [''name''], status = DRAFT,
      created_at = 0, updated_at = 0, performance_metrics = [], description = None,
      tags = []\<rparr>"

definition sample_manager :: PromptManager where
  "sample_manager =
     \<lparr>prompts = [(''a'', sample_prompt ''a''), (''b'', sample_prompt ''b'')],
      redis_available = True, ab_tests = Map.empty, stored_prompts = Map.empty\<rparr>"

text \<open>The manager after an experiment on \<open>greeting\<close> was started with the given split.\<close>

definition running_manager :: "real \<Rightarrow> PromptManager" where
  "running_manager split =
     snd (start_ab_test default_settings sample_manager 1 2 3 ''greeting'' ''a'' ''b'' split)"

definition sample_hash :: "string \<Rightarrow> int" where
  "sample_hash s = 37 * int (length s) - 1000"

definition sample_request :: "string \<Rightarrow> datetime \<Rightarrow> real \<Rightarrow> real \<Rightarrow> bool \<Rightarrow> LLMRequest" where
  "sample_request rid ts lat cost ok =
     \<lparr>request_id = rid, model_name = ''gpt-4'', model_version = ''latest'',
      prompt_id = None, user_id = None, timestamp = ts, input_tokens = 100,
      output_tokens = 50, latency_ms = lat, cost_usd = cost, success = ok,
      error_message = (if ok then None else Some ''timeout''), metadata = []\<rparr>"

definition empty_store :: redis where
  "empty_store = \<lparr>available = True, strings = Map.empty, lists = (\<lambda>k. []), ttl = Map.empty\<rparr>"

text \<open>The store after the given records were saved, the first one first.\<close>

definition store_of :: "LLMRequest list \<Rightarrow> redis" where
  "store_of rs = fold (\<lambda>r st. fst (snd (save_request st r))) rs empty_store"

text \<open>
  Three requests of one calendar day (day 0, at 01:00, 02:00 and 03:00), the second one
  failed, and the store that holds them.
\<close>

definition sample_requests :: "LLMRequest list" where
  "sample_requests =
     [sample_request ''r1'' 3600000000 300 40 True,
      sample_request ''r2'' 7200000000 100 35 False,
      sample_request ''r3'' 10800000000 200 25 True]"

definition sample_store :: redis where
  "sample_store = store_of sample_requests"

text \<open>Twenty requests with the latencies 100, 200, ..., 2000, each under an id of its own.\<close>

definition twenty_requests :: "LLMRequest list" where
  "twenty_requests =
     map (\<lambda>k. sample_request (replicate k CHR ''x'') 0 (100 * real k) 0 True) [1 ..< 21]"

definition twenty_store :: redis where
  "twenty_store = store_of twenty_requests"

text \<open>
  A store with one request stamped on day 1 at 09:00, and a period from day 0 at 22:00 to
  day 1 at 10:00.
\<close>

definition morning_request :: LLMRequest where
  "morning_request = sample_request ''m1'' 118800000000 250 7 True"

definition morning_store :: redis where
  "morning_store = store_of [morning_request]"

definition evening_before :: datetime where
  "evening_before = 79200000000"

definition next_morning :: datetime where
  "next_morning = 122400000000"

text \<open>
  The string hash of a second interpreter process: Python salts the hash of strings
  anew in every process.
\<close>

definition other_hash :: "string \<Rightarrow> int" where
  "other_hash s = 37 * int (length s) - 1050"

text \<open>
  Two requests around midnight: one stamped on day 0 at 23:40 with a latency of 100 ms,
  one stamped on day 1 at 00:10 with a latency of 900 ms, which failed; and the clock
  reading of day 1 at 00:30.
\<close>

definition evening_request :: LLMRequest where
  "evening_request = sample_request ''e1'' 85200000000 100 1 True"

definition night_request :: LLMRequest where
  "night_request = sample_request ''n1'' 87000000000 900 2 False"

definition night_store :: redis where
  "night_store = store_of [evening_request, night_request]"

definition half_past_midnight :: datetime where
  "half_past_midnight = 88200000000"

section \<open>Theorems\<close>

lemma get_model_config_cases:
  "get_model_config n =
     Inr (if n = ''gpt-4'' then
            [(''provider'', ProviderV OPENAI), (''max_tokens'', IntV 8192),
             (''temperature'', FloatV 0.7), (''cost_per_1k_tokens'', FloatV 0.03)]
          else if n = ''gpt-3.5-turbo'' then
            [(''provider'', ProviderV OPENAI), (''max_tokens'', IntV 4096),
             (''temperature'', FloatV 0.7), (''cost_per_1k_tokens'', FloatV 0.002)]
          else if n = ''claude-3-opus'' then
            [(''provider'', ProviderV ANTHROPIC), (''max_tokens'', IntV 4096),
             (''temperature'', FloatV 0.7), (''cost_per_1k_tokens'', FloatV 0.015)]
          else if n = ''claude-3-sonnet'' then
            [(''provider'', ProviderV ANTHROPIC), (''max_tokens'', IntV 4096),
             (''temperature'', FloatV 0.7), (''cost_per_1k_tokens'', FloatV 0.003)]
          else
            [(''provider'', ProviderV OPENAI), (''max_tokens'', IntV 8192),
             (''temperature'', FloatV 0.7), (''cost_per_1k_tokens'', FloatV 0.03)])"
  by (simp add: get_model_config_def MODEL_CONFIGS_def)

text \<open>
  C9. For every model name and all token counts, \<open>calculate_cost\<close> returns normally, and
  its value is \<open>(input_tokens + output_tokens) / 1000\<close> times the rate configured for the
  model, the default (\<open>gpt-4\<close>) entry's rate standing in for an unknown name; with 1000
  input tokens and no output tokens the value is that rate itself.
\<close>

theorem calculate_cost_formula:
  "calculate_cost name i_tokens o_tokens =
     Inr (real_of_int (i_tokens + o_tokens) / 1000 * configured_rate name)
   \<and> calculate_cost name 1000 0 = Inr (configured_rate name)
   \<and> map_of (case map_of MODEL_CONFIGS name of
               None \<Rightarrow> the (map_of MODEL_CONFIGS ''gpt-4'')
             | Some c \<Rightarrow> c) ''cost_per_1k_tokens'' = Some (FloatV (configured_rate name))"
  by (simp add: calculate_cost_def get_model_config_cases configured_rate_def
        MODEL_CONFIGS_def)

theorem calculate_cost_formula_witness:
  "calculate_cost ''claude-3-opus'' 1200 800 = Inr 0.03
   \<and> calculate_cost ''no-such-model'' 1000 0 = Inr 0.03
   \<and> map_of MODEL_CONFIGS ''no-such-model'' = None"
  using calculate_cost_formula [of "''no-such-model''" 1000 0]
    calculate_cost_formula [of "''claude-3-opus''" 1200 800]
  by (simp add: configured_rate_def MODEL_CONFIGS_def)

subsection \<open>The loops read the scanned records\<close>

lemma add_costs_live:
  "available st \<Longrightarrow>
   add_costs st ids (c, n, t) =
     Inr (c + sum_list (map cost_usd (live_records st ids)),
          n + length (live_records st ids),
          t + sum_list (map (\<lambda>r. input_tokens r + output_tokens r) (live_records st ids)))"
  by (induction ids arbitrary: c n t) (auto simp: redis_get_def split: option.splits)

lemma scanned_records_step:
  "cur \<le> end_date \<Longrightarrow>
   scanned_records st model cur end_date =
     live_records st (lists st (date_key model cur))
       @ scanned_records st model (cur + day_us) end_date"
  by (simp add: scanned_records_def loop_instants.simps [of cur end_date])

lemma scanned_records_done:
  "\<not> cur \<le> end_date \<Longrightarrow> scanned_records st model cur end_date = []"
  by (simp add: scanned_records_def loop_instants.simps [of cur end_date])

lemma cost_days_scanned:
  "available st \<Longrightarrow>
   cost_days st model cur end_date (c, n, t) =
     Inr (c + sum_list (map cost_usd (scanned_records st model cur end_date)),
          n + length (scanned_records st model cur end_date),
          t + sum_list (map (\<lambda>r. input_tokens r + output_tokens r)
                (scanned_records st model cur end_date)))"
proof (induction st model cur end_date "(c, n, t)" arbitrary: c n t rule: cost_days.induct)
  case (1 st model cur end_date)
  show ?case
  proof (cases "cur \<le> end_date")
    case True
    have lr: "redis_lrange st (date_key model cur) = Inr (lists st (date_key model cur))"
      using "1.prems" by (simp add: redis_lrange_def)
    have ac: "add_costs st (lists st (date_key model cur)) (c, n, t) =
        Inr (c + sum_list (map cost_usd (live_records st (lists st (date_key model cur)))),
             n + length (live_records st (lists st (date_key model cur))),
             t + sum_list (map (\<lambda>r. input_tokens r + output_tokens r)
                   (live_records st (lists st (date_key model cur)))))"
      using "1.prems" by (rule add_costs_live)
    have step: "cost_days st model cur end_date (c, n, t) =
        cost_days st model (cur + day_us) end_date
          (c + sum_list (map cost_usd (live_records st (lists st (date_key model cur)))),
           n + length (live_records st (lists st (date_key model cur))),
           t + sum_list (map (\<lambda>r. input_tokens r + output_tokens r)
                 (live_records st (lists st (date_key model cur)))))"
      using True by (subst cost_days.simps) (simp add: lr ac)
    show ?thesis
      unfolding step "1.hyps" [OF True lr ac "1.prems"]
      by (simp add: scanned_records_step [OF True])
  next
    case False
    then show ?thesis
      by (subst cost_days.simps) (simp add: scanned_records_done)
  qed
qed

lemma collect_requests_live:
  "available st \<Longrightarrow>
   collect_requests st ids s e acc = Inr (acc @ filter (in_window s e) (live_records st ids))"
  by (induction ids arbitrary: acc) (auto simp: redis_get_def in_window_def split: option.splits)

lemma perf_days_scanned:
  "available st \<Longrightarrow>
   perf_days st model cur s e acc =
     Inr (acc @ filter (in_window s e) (scanned_records st model cur e))"
proof (induction st model cur s e acc rule: perf_days.induct)
  case (1 st model cur s e acc)
  show ?case
  proof (cases "cur \<le> e")
    case True
    have lr: "redis_lrange st (date_key model cur) = Inr (lists st (date_key model cur))"
      using "1.prems" by (simp add: redis_lrange_def)
    show ?thesis
      using True "1.prems" lr
      by (subst perf_days.simps)
        (simp add: collect_requests_live
           "1.IH" [OF True lr collect_requests_live [OF "1.prems"] "1.prems"]
           scanned_records_step)
  next
    case False
    then show ?thesis
      by (subst perf_days.simps) (simp add: scanned_records_done)
  qed
qed

lemma collect_errors_live:
  "available st \<Longrightarrow>
   collect_errors st ids s e acc =
     Inr (acc @ filter (\<lambda>r. in_window s e r \<and> \<not> success r) (live_records st ids))"
  by (induction ids arbitrary: acc) (auto simp: redis_get_def in_window_def split: option.splits)

lemma error_days_scanned:
  "available st \<Longrightarrow>
   error_days st cur s e acc =
     Inr (acc @ filter (\<lambda>r. in_window s e r \<and> \<not> success r) (scanned_records st None cur e))"
proof (induction st cur s e acc rule: error_days.induct)
  case (1 st cur s e acc)
  show ?case
  proof (cases "cur \<le> e")
    case True
    have lr: "redis_lrange st (DateKey (date_of cur)) = Inr (lists st (DateKey (date_of cur)))"
      using "1.prems" by (simp add: redis_lrange_def)
    show ?thesis
      using True "1.prems" lr
      by (subst error_days.simps)
        (simp add: collect_errors_live
           "1.IH" [OF True lr collect_errors_live [OF "1.prems"] "1.prems"]
           scanned_records_step date_key_def)
  next
    case False
    then show ?thesis
      by (subst error_days.simps) (simp add: scanned_records_done)
  qed
qed

subsection \<open>Experiment assignment\<close>

lemma running_manager_eval:
  "running_manager split =
     \<lparr>prompts = [(''a'', (sample_prompt ''a'')\<lparr>status := TESTING, updated_at := 1\<rparr>),
                 (''b'', (sample_prompt ''b'')\<lparr>status := TESTING, updated_at := 2\<rparr>)],
      redis_available = True,
      ab_tests = [''greeting'' \<mapsto> (86400,
         \<lparr>ab_template_name = ''greeting'', prompt_a = ''a'', prompt_b = ''b'',
          traffic_split = split, started_at = 3, active = True\<rparr>)],
      stored_prompts =
        [''a'' \<mapsto> (3600, (sample_prompt ''a'')\<lparr>status := TESTING, updated_at := 1\<rparr>),
         ''b'' \<mapsto> (3600, (sample_prompt ''b'')\<lparr>status := TESTING, updated_at := 2\<rparr>)]\<rparr>"
  by (simp add: running_manager_def start_ab_test_def sample_manager_def default_settings_def
        get_prompt_def modify_prompt_def save_prompt_def sample_prompt_def)

text \<open>
  Within one interpreter, whose hash function is \<open>py_hash\<close>: with an active experiment
  stored under the name and the store reachable, the prompt that
  \<open>get_ab_test_prompt\<close> returns for a non-empty user id does not depend on the random
  draw of the call: it is the prompt of the variant that the hash of the user id selects.
\<close>

lemma assignment_by_hash:
  assumes "ab_tests pm name = Some (secs, config)" and "active config"
    and "redis_available pm" and "u \<noteq> []"
  shows "get_ab_test_prompt py_hash rnd1 pm name (Some u)
           = get_ab_test_prompt py_hash rnd2 pm name (Some u)
         \<and> get_ab_test_prompt py_hash rnd1 pm name (Some u)
           = Inr (get_prompt pm
               (if real_of_int (py_hash u mod 100) < traffic_split config * 100
                then prompt_b config else prompt_a config))"
  using assms by (simp add: get_ab_test_prompt_def)

text \<open>
  The empty user id: \<open>if user_id:\<close> is false for it, the variant is drawn at random,
  and two calls with different draws return different variants.
\<close>

lemma empty_user_id_not_sticky:
  "get_ab_test_prompt sample_hash (1/4) (running_manager (1/2)) ''greeting'' (Some '''')
     = Inr (Some ((sample_prompt ''b'')\<lparr>status := TESTING, updated_at := 2\<rparr>))
   \<and> get_ab_test_prompt sample_hash (3/4) (running_manager (1/2)) ''greeting'' (Some '''')
     = Inr (Some ((sample_prompt ''a'')\<lparr>status := TESTING, updated_at := 1\<rparr>))
   \<and> get_ab_test_prompt sample_hash (1/4) (running_manager (1/2)) ''greeting'' (Some '''')
     \<noteq> get_ab_test_prompt sample_hash (3/4) (running_manager (1/2)) ''greeting'' (Some '''')"
  by (simp add: get_ab_test_prompt_def running_manager_eval get_prompt_def sample_prompt_def)

text \<open>
  C1, at the input where the code departs from it. The claim: for an unchanged active
  experiment, repeated calls with the same name and user id return the same variant
  every time. The experiment is kept in the store for 24 hours and is read by every
  process, but the bucket of a user is \<open>hash(user_id) % 100\<close> with the builtin hash of
  strings, which differs from one interpreter process to the next: for the same
  experiment, the same user id and the same random draw, the process whose hash is
  \<open>sample_hash\<close> returns variant A and the process whose hash is \<open>other_hash\<close> returns
  variant B.
\<close>

theorem salted_hash_not_sticky:
  "get_ab_test_prompt sample_hash (1/4) (running_manager (1/2)) ''greeting'' (Some ''user123'')
     = Inr (Some ((sample_prompt ''a'')\<lparr>status := TESTING, updated_at := 1\<rparr>))
   \<and> get_ab_test_prompt other_hash (1/4) (running_manager (1/2)) ''greeting'' (Some ''user123'')
     = Inr (Some ((sample_prompt ''b'')\<lparr>status := TESTING, updated_at := 2\<rparr>))
   \<and> get_ab_test_prompt sample_hash (1/4) (running_manager (1/2)) ''greeting'' (Some ''user123'')
     \<noteq> get_ab_test_prompt other_hash (1/4) (running_manager (1/2)) ''greeting''
         (Some ''user123'')
   \<and> sample_hash ''user123'' mod 100 = 59 \<and> other_hash ''user123'' mod 100 = 9"
  by (simp add: get_ab_test_prompt_def running_manager_eval get_prompt_def sample_prompt_def
        sample_hash_def other_hash_def)

text \<open>
  C2. With an active experiment and the store reachable, a traffic split of 0 makes
  \<open>get_ab_test_prompt\<close> return variant A and a traffic split of 1 variant B, for
  every user id (given, empty or absent) and every random draw in \<open>[0, 1)\<close>.
\<close>

theorem boundary_splits:
  assumes "ab_tests pm name = Some (secs, config)" and "active config"
    and "redis_available pm" and "0 \<le> rnd" and "rnd < 1"
  shows "(traffic_split config = 0 \<longrightarrow>
            get_ab_test_prompt py_hash rnd pm name uid = Inr (get_prompt pm (prompt_a config)))
       \<and> (traffic_split config = 1 \<longrightarrow>
            get_ab_test_prompt py_hash rnd pm name uid = Inr (get_prompt pm (prompt_b config)))"
proof -
  have lo: "\<And>u. \<not> real_of_int (py_hash u mod 100) < 0"
    by (simp add: not_less)
  have hi: "\<And>u. real_of_int (py_hash u mod 100) < 100"
  proof -
    fix u
    have "py_hash u mod 100 < 100" by simp
    then show "real_of_int (py_hash u mod 100) < 100" by linarith
  qed
  show ?thesis
    using assms lo hi
    by (auto simp: get_ab_test_prompt_def split: option.splits)
qed

theorem boundary_splits_witness:
  "redis_available (running_manager 0) \<and> redis_available (running_manager 1)
   \<and> get_ab_test_prompt sample_hash (9/10) (running_manager 0) ''greeting'' (Some ''user123'')
       = Inr (Some ((sample_prompt ''a'')\<lparr>status := TESTING, updated_at := 1\<rparr>))
   \<and> get_ab_test_prompt sample_hash 0 (running_manager 0) ''greeting'' None
       = Inr (Some ((sample_prompt ''a'')\<lparr>status := TESTING, updated_at := 1\<rparr>))
   \<and> get_ab_test_prompt sample_hash 0 (running_manager 1) ''greeting'' (Some ''user123'')
       = Inr (Some ((sample_prompt ''b'')\<lparr>status := TESTING, updated_at := 2\<rparr>))
   \<and> get_ab_test_prompt sample_hash (9/10) (running_manager 1) ''greeting'' None
       = Inr (Some ((sample_prompt ''b'')\<lparr>status := TESTING, updated_at := 2\<rparr>))"
proof -
  let ?cfg = "\<lambda>s. \<lparr>ab_template_name = ''greeting'', prompt_a = ''a'', prompt_b = ''b'',
               traffic_split = s, started_at = 3, active = True\<rparr>"
  have h0: "ab_tests (running_manager 0) ''greeting'' = Some (86400, ?cfg 0)"
    and h1: "ab_tests (running_manager 1) ''greeting'' = Some (86400, ?cfg 1)"
    by (simp_all add: running_manager_eval)
  have a: "active (?cfg 0)" "active (?cfg 1)" by simp_all
  have r: "redis_available (running_manager 0)" "redis_available (running_manager 1)"
    by (simp_all add: running_manager_eval)
  have b: "(0::real) \<le> 9/10" "(9/10::real) < 1" "(0::real) \<le> 0" "(0::real) < 1" by simp_all
  have va: "get_prompt (running_manager 0) (prompt_a (?cfg 0))
               = Some ((sample_prompt ''a'')\<lparr>status := TESTING, updated_at := 1\<rparr>)"
    and vb: "get_prompt (running_manager 1) (prompt_b (?cfg 1))
               = Some ((sample_prompt ''b'')\<lparr>status := TESTING, updated_at := 2\<rparr>)"
    by (simp_all add: get_prompt_def running_manager_eval)
  have s0: "traffic_split (?cfg 0) = 0" and s1: "traffic_split (?cfg 1) = 1" by simp_all
  show ?thesis
    using boundary_splits [OF h0 a(1) r(1) b(1) b(2), of sample_hash "Some ''user123''"]
      boundary_splits [OF h0 a(1) r(1) b(3) b(4), of sample_hash None]
      boundary_splits [OF h1 a(2) r(2) b(3) b(4), of sample_hash "Some ''user123''"]
      boundary_splits [OF h1 a(2) r(2) b(1) b(2), of sample_hash None]
      r s0 s1
    unfolding va vb by blast
qed

subsection \<open>Starting an experiment\<close>

lemma map_of_modify_prompt:
  "map_of (modify_prompt pid f ps) k =
     (if k = pid then map_option f (map_of ps k) else map_of ps k)"
  by (induction ps) (auto simp: modify_prompt_def)

lemma redis_available_save_prompt [simp]:
  "redis_available (save_prompt cfg pm p) = redis_available pm"
  by (simp add: save_prompt_def)

lemma ab_tests_save_prompt [simp]:
  "ab_tests (save_prompt cfg pm p) = ab_tests pm"
  by (simp add: save_prompt_def)

lemma prompts_save_prompt [simp]:
  "prompts (save_prompt cfg pm p) = prompts pm"
  by (simp add: save_prompt_def)

text \<open>
  C3, amended. \<open>start_ab_test\<close> does not look at the traffic split. It returns
  \<open>False\<close> and leaves the state as it was, so that no assignment is stored, exactly
  when A/B testing is disabled or one of the two prompt ids names no prompt of the
  manager (as an empty id does unless a prompt is kept under it). Otherwise, with the
  store reachable, it returns \<open>True\<close> and stores the assignment under the template
  name with the split as given, whatever its value; with the store unreachable the last
  \<open>setex\<close> raises and no assignment is stored.
\<close>

theorem start_ab_test_outcome:
  "(\<not> (ab_test_enabled cfg \<and> get_prompt pm a \<noteq> None \<and> get_prompt pm b \<noteq> None) \<longrightarrow>
      start_ab_test cfg pm now_a now_b now_s name a b split = (Inr False, pm))
   \<and> (ab_test_enabled cfg \<and> get_prompt pm a \<noteq> None \<and> get_prompt pm b \<noteq> None
        \<and> redis_available pm \<longrightarrow>
      fst (start_ab_test cfg pm now_a now_b now_s name a b split) = Inr True
      \<and> ab_tests (snd (start_ab_test cfg pm now_a now_b now_s name a b split)) name =
          Some (86400, \<lparr>ab_template_name = name, prompt_a = a, prompt_b = b,
                        traffic_split = split, started_at = now_s, active = True\<rparr>))
   \<and> (ab_test_enabled cfg \<and> get_prompt pm a \<noteq> None \<and> get_prompt pm b \<noteq> None
        \<and> \<not> redis_available pm \<longrightarrow>
      fst (start_ab_test cfg pm now_a now_b now_s name a b split) = Inl StorageUnavailable
      \<and> ab_tests (snd (start_ab_test cfg pm now_a now_b now_s name a b split)) = ab_tests pm)"
  by (auto simp: start_ab_test_def Let_def get_prompt_def map_of_modify_prompt
        split: option.splits)

theorem start_ab_test_outcome_witness:
  "start_ab_test default_settings sample_manager 1 2 3 ''greeting'' ''a'' '''' (1/2)
     = (Inr False, sample_manager)
   \<and> fst (start_ab_test default_settings sample_manager 1 2 3 ''greeting'' ''a'' ''b'' (-7))
     = Inr True
   \<and> ab_tests (snd (start_ab_test default_settings sample_manager 1 2 3
                       ''greeting'' ''a'' ''b'' (-7))) ''greeting''
     = Some (86400, \<lparr>ab_template_name = ''greeting'', prompt_a = ''a'', prompt_b = ''b'',
                     traffic_split = -7, started_at = 3, active = True\<rparr>)
   \<and> fst (start_ab_test default_settings (sample_manager\<lparr>redis_available := False\<rparr>)
             1 2 3 ''greeting'' ''a'' ''b'' (1/2))
     = Inl StorageUnavailable"
proof -
  have e: "ab_test_enabled default_settings" by (simp add: default_settings_def)
  have a: "get_prompt sample_manager ''a'' \<noteq> None" "get_prompt sample_manager ''b'' \<noteq> None"
    "get_prompt (sample_manager\<lparr>redis_available := False\<rparr>) ''a'' \<noteq> None"
    "get_prompt (sample_manager\<lparr>redis_available := False\<rparr>) ''b'' \<noteq> None"
    by (simp_all add: get_prompt_def sample_manager_def)
  have n: "\<not> (ab_test_enabled default_settings \<and> get_prompt sample_manager ''a'' \<noteq> None
              \<and> get_prompt sample_manager '''' \<noteq> None)"
    by (simp add: get_prompt_def sample_manager_def)
  have r: "redis_available sample_manager"
    "\<not> redis_available (sample_manager\<lparr>redis_available := False\<rparr>)"
    by (simp_all add: sample_manager_def)
  show ?thesis
    using start_ab_test_outcome [of default_settings sample_manager "''a''" "''''" 1 2 3
        "''greeting''" "1/2"]
      start_ab_test_outcome [of default_settings sample_manager "''a''" "''b''" 1 2 3
        "''greeting''" "-7"]
      start_ab_test_outcome [of default_settings "sample_manager\<lparr>redis_available := False\<rparr>"
        "''a''" "''b''" 1 2 3 "''greeting''" "1/2"]
      e a n r
    by blast
qed

text \<open>
  C3 as stated fails: a traffic split of 1.5 is accepted and stored, and nothing in
  \<open>start_ab_test\<close> raises an invalid-argument error.
\<close>

theorem start_ab_test_accepts_any_split:
  "\<not> (0 \<le> (3/2 :: real) \<and> (3/2 :: real) \<le> 1)
   \<and> fst (start_ab_test default_settings sample_manager 1 2 3 ''greeting'' ''a'' ''b'' (3/2))
       = Inr True
   \<and> ab_tests (snd (start_ab_test default_settings sample_manager 1 2 3
                       ''greeting'' ''a'' ''b'' (3/2))) ''greeting''
       = Some (86400, \<lparr>ab_template_name = ''greeting'', prompt_a = ''a'', prompt_b = ''b'',
                       traffic_split = 3/2, started_at = 3, active = True\<rparr>)"
  by (simp add: start_ab_test_def sample_manager_def default_settings_def
        get_prompt_def modify_prompt_def save_prompt_def sample_prompt_def)

subsection \<open>Ingestion\<close>

text \<open>
  C4, amended. \<open>_save_request\<close> never raises. When the store is unreachable the
  failure is caught inside the function and written to the log, the caller sees a normal
  return, and nothing is stored; when the store is reachable the record is stored under
  its id with a 24-hour expiry and its id is pushed on the day's list and on the model's
  list of that day.
\<close>

theorem save_request_never_raises:
  "fst (save_request st r) = Inr ()
   \<and> (\<not> available st \<longrightarrow> save_request st r = (Inr (), st, [StorageUnavailable]))
   \<and> (available st \<longrightarrow>
        snd (snd (save_request st r)) = []
        \<and> strings (fst (snd (save_request st r))) (RequestKey (request_id r)) = Some r
        \<and> ttl (fst (snd (save_request st r))) (RequestKey (request_id r)) = Some 86400
        \<and> lists (fst (snd (save_request st r))) (DateKey (date_of (timestamp r)))
            = request_id r # lists st (DateKey (date_of (timestamp r)))
        \<and> lists (fst (snd (save_request st r)))
              (ModelDateKey (model_name r) (date_of (timestamp r)))
            = request_id r # lists st (ModelDateKey (model_name r) (date_of (timestamp r))))"
  by (simp add: save_request_def save_request_body_def redis_setex_def redis_lpush_def
        redis_expire_def)

theorem save_request_never_raises_witness:
  "fst (save_request empty_store (sample_request ''r1'' 5 120 0.01 True)) = Inr ()
   \<and> save_request (empty_store\<lparr>available := False\<rparr>) (sample_request ''r1'' 5 120 0.01 True)
       = (Inr (), empty_store\<lparr>available := False\<rparr>, [StorageUnavailable])
   \<and> strings (fst (snd (save_request empty_store (sample_request ''r1'' 5 120 0.01 True))))
        (RequestKey ''r1'') = Some (sample_request ''r1'' 5 120 0.01 True)
   \<and> lists (fst (snd (save_request empty_store (sample_request ''r1'' 5 120 0.01 True))))
        (DateKey 0) = [''r1'']"
proof -
  have a: "available empty_store" "\<not> available (empty_store\<lparr>available := False\<rparr>)"
    by (simp_all add: empty_store_def)
  have f: "request_id (sample_request ''r1'' 5 120 0.01 True) = ''r1''"
    "date_of (timestamp (sample_request ''r1'' 5 120 0.01 True)) = 0"
    "lists empty_store (DateKey 0) = []"
    by (simp_all add: sample_request_def date_of_def day_us_def empty_store_def)
  show ?thesis
    using save_request_never_raises [of empty_store "sample_request ''r1'' 5 120 0.01 True"]
      save_request_never_raises [of "empty_store\<lparr>available := False\<rparr>"
        "sample_request ''r1'' 5 120 0.01 True"] a
    unfolding f by blast
qed

text \<open>
  C4 as stated fails: with the store unreachable \<open>_save_request\<close> returns normally, it
  does not propagate \<open>StorageUnavailable\<close>.
\<close>

theorem save_request_swallows_outage:
  "\<not> available (empty_store\<lparr>available := False\<rparr>)
   \<and> fst (save_request (empty_store\<lparr>available := False\<rparr>)
            (sample_request ''r1'' 5 120 0.01 True)) = Inr ()
   \<and> fst (save_request (empty_store\<lparr>available := False\<rparr>)
            (sample_request ''r1'' 5 120 0.01 True)) \<noteq> Inl StorageUnavailable"
  by (simp add: save_request_def save_request_body_def redis_setex_def empty_store_def)

subsection \<open>Aggregation over the scanned records\<close>

lemma get_cost_metrics_scanned:
  assumes "available st"
  shows "get_cost_metrics st now1 now2 model (Some s) (Some e) =
     Inr \<lparr>total_cost_usd = sum_list (map cost_usd (scanned_records st model s e)),
          cost_per_request =
            (if length (scanned_records st model s e) > 0
             then sum_list (map cost_usd (scanned_records st model s e))
                    / real (length (scanned_records st model s e))
             else 0),
          cost_per_token =
            (if sum_list (map (\<lambda>r. input_tokens r + output_tokens r)
                   (scanned_records st model s e)) > 0
             then sum_list (map cost_usd (scanned_records st model s e))
                    / real_of_int (sum_list (map (\<lambda>r. input_tokens r + output_tokens r)
                        (scanned_records st model s e)))
             else 0),
          requests_count = length (scanned_records st model s e),
          tokens_count = sum_list (map (\<lambda>r. input_tokens r + output_tokens r)
                           (scanned_records st model s e)),
          period_start = s,
          period_end = e\<rparr>"
  by (simp add: get_cost_metrics_def cost_days_scanned [OF assms])

lemma get_performance_metrics_scanned:
  assumes "available st" and "window_start now hours = Inr s"
  shows "get_performance_metrics st now model hours =
     (if filter (in_window s now) (scanned_records st model s now) = []
      then Inr no_requests
      else summarise (filter (in_window s now) (scanned_records st model s now)) hours)"
  by (simp add: get_performance_metrics_def perf_days_scanned [OF assms(1)] assms(2) Let_def)

lemma get_error_summary_scanned:
  assumes "available st" and "window_start now hours = Inr s"
  shows "get_error_summary st now hours =
     Inr \<lparr>total_errors =
            length (filter (\<lambda>r. in_window s now r \<and> \<not> success r)
              (scanned_records st None s now)),
          error_types =
            count_error_types (filter (\<lambda>r. in_window s now r \<and> \<not> success r)
              (scanned_records st None s now)) Map.empty,
          error_rate =
            real (length (filter (\<lambda>r. in_window s now r \<and> \<not> success r)
              (scanned_records st None s now)))
            / (real (length (filter (\<lambda>r. in_window s now r \<and> \<not> success r)
                 (scanned_records st None s now))) + 100)\<rparr>"
  by (simp add: get_error_summary_def error_days_scanned [OF assms(1)] assms(2) Let_def max_def)

lemma p95_index_in_range:
  assumes "ls \<noteq> []"
  shows "nat \<lfloor>real (length ls) * 0.95\<rfloor> < length ls"
proof -
  have pos: "0 < real (length ls)" using assms by simp
  then have "real (length ls) * 0.95 < real (length ls)" by simp
  then have "\<lfloor>real (length ls) * 0.95\<rfloor> < int (length ls)"
    by (simp add: floor_less_iff)

  moreover have "0 \<le> \<lfloor>real (length ls) * 0.95\<rfloor>" by simp
  ultimately show ?thesis by (simp add: nat_less_iff)
qed

lemma percentile95_nearest_rank:
  assumes "ls \<noteq> []"
  shows "percentile95 ls = Inr (sort ls ! nat \<lfloor>real (length ls) * 0.95\<rfloor>)"
  using p95_index_in_range [OF assms] by (simp add: percentile95_def Let_def)

lemma summarise_p95:
  assumes "rs \<noteq> []" and "hours \<noteq> 0"
  shows "\<exists>m. summarise rs hours = Inr m
           \<and> p95_latency_ms m =
               Some (sort (map latency_ms rs) ! nat \<lfloor>real (length rs) * 0.95\<rfloor>)
           \<and> total_requests m = length rs"
proof -
  obtain r rs' where rs: "rs = r # rs'" using assms(1) by (cases rs) auto
  have ne: "map latency_ms rs \<noteq> []" using assms(1) by simp
  show ?thesis
    using percentile95_nearest_rank [OF ne] assms(2)
    by (simp add: summarise_def Let_def rs)
qed

lemma twenty_sorted:
  assumes "mset ls = mset (map (\<lambda>k. 100 * real k) [1 ..< 21])"
  shows "sort ls ! nat \<lfloor>real (length ls) * 0.95\<rfloor> = 2000"
proof -
  have srt: "sorted (map (\<lambda>k. 100 * real k) [1 ..< 21])"
    by (simp add: sorted_map sorted_wrt_iff_nth_less)
  have eq: "sort ls = map (\<lambda>k. 100 * real k) [1 ..< 21]"
    using properties_for_sort [OF assms [symmetric] srt] .
  have len: "length ls = 20"
    using arg_cong [OF assms, of size] by simp
  show ?thesis
    unfolding eq len by (simp add: nth_map)
qed

subsection \<open>Saving, then scanning\<close>

lemma save_request_available:
  assumes "available st"
  shows "fst (snd (save_request st r)) =
     st\<lparr>strings := (strings st)(RequestKey (request_id r) \<mapsto> r),
        ttl := (ttl st)(RequestKey (request_id r) \<mapsto> 86400,
                 DateKey (date_of (timestamp r)) \<mapsto> 2592000,
                 ModelDateKey (model_name r) (date_of (timestamp r)) \<mapsto> 2592000),
        lists := (lists st)
          (DateKey (date_of (timestamp r)) :=
             request_id r # lists st (DateKey (date_of (timestamp r))),
           ModelDateKey (model_name r) (date_of (timestamp r)) :=
             request_id r # lists st (ModelDateKey (model_name r) (date_of (timestamp r))))\<rparr>"
  using assms
  by (simp add: save_request_def save_request_body_def redis_setex_def redis_lpush_def
        redis_expire_def)

lemma fold_save_available:
  "available st \<Longrightarrow> available (fold (\<lambda>r st. fst (snd (save_request st r))) rs st)"
  by (induction rs arbitrary: st) (simp_all add: save_request_available)

lemma fold_save_day_list:
  "available st \<Longrightarrow>
   lists (fold (\<lambda>r st. fst (snd (save_request st r))) rs st) (DateKey d) =
     rev (map request_id (filter (\<lambda>r. date_of (timestamp r) = d) rs)) @ lists st (DateKey d)"
proof (induction rs arbitrary: st)
  case Nil
  then show ?case by simp
next
  case (Cons r rs)
  have av: "available (fst (snd (save_request st r)))"
    using Cons.prems by (simp add: save_request_available)
  show ?case
    using Cons.prems by (simp add: Cons.IH [OF av]) (simp add: save_request_available)
qed

lemma fold_save_keeps_record:
  "available st \<Longrightarrow> strings st (RequestKey i) = Some x \<Longrightarrow> i \<notin> request_id ` set rs \<Longrightarrow>
   strings (fold (\<lambda>r st. fst (snd (save_request st r))) rs st) (RequestKey i) = Some x"
proof (induction rs arbitrary: st)
  case Nil
  then show ?case by simp
next
  case (Cons r rs)
  have av: "available (fst (snd (save_request st r)))"
    using Cons.prems by (simp add: save_request_available)
  have keep: "strings (fst (snd (save_request st r))) (RequestKey i) = Some x"
    using Cons.prems by (auto simp: save_request_available)
  show ?case
    using Cons.prems by (simp add: Cons.IH [OF av keep])
qed

lemma fold_save_record:
  "available st \<Longrightarrow> distinct (map request_id rs) \<Longrightarrow> x \<in> set rs \<Longrightarrow>
   strings (fold (\<lambda>r st. fst (snd (save_request st r))) rs st) (RequestKey (request_id x))
     = Some x"
proof (induction rs arbitrary: st)
  case Nil
  then show ?case by simp
next
  case (Cons r rs)
  have av: "available (fst (snd (save_request st r)))"
    using Cons.prems by (simp add: save_request_available)
  show ?case
  proof (cases "x = r")
    case True
    have here: "strings (fst (snd (save_request st r))) (RequestKey (request_id r)) = Some r"
      using Cons.prems by (simp add: save_request_available)
    have fresh: "request_id r \<notin> request_id ` set rs"
      using Cons.prems by simp
    show ?thesis
      using fold_save_keeps_record [OF av here fresh] True by simp
  next
    case False
    then have "x \<in> set rs" using Cons.prems by simp
    moreover have "distinct (map request_id rs)" using Cons.prems by simp
    ultimately show ?thesis
      using Cons.IH [OF av] by simp
  qed
qed

lemma live_records_all:
  "(\<And>x. x \<in> set xs \<Longrightarrow> strings st (RequestKey (request_id x)) = Some x) \<Longrightarrow>
   live_records st (map request_id xs) = xs"
  by (induction xs) simp_all

text \<open>Round trip: what was saved on a day is what a scan of that day's list reads.\<close>

lemma store_of_day:
  assumes "distinct (map request_id rs)"
  shows "live_records (store_of rs) (lists (store_of rs) (DateKey d)) =
           rev (filter (\<lambda>r. date_of (timestamp r) = d) rs)"
proof -
  have av: "available empty_store" by (simp add: empty_store_def)
  have l: "lists (store_of rs) (DateKey d) =
      map request_id (rev (filter (\<lambda>r. date_of (timestamp r) = d) rs))"
    unfolding store_of_def fold_save_day_list [OF av]
    by (simp add: empty_store_def rev_map)
  have "live_records (store_of rs)
          (map request_id (rev (filter (\<lambda>r. date_of (timestamp r) = d) rs)))
        = rev (filter (\<lambda>r. date_of (timestamp r) = d) rs)"
  proof (rule live_records_all)
    fix x assume "x \<in> set (rev (filter (\<lambda>r. date_of (timestamp r) = d) rs))"
    then have "x \<in> set rs" by simp
    then show "strings (store_of rs) (RequestKey (request_id x)) = Some x"
      unfolding store_of_def by (rule fold_save_record [OF av assms])
  qed
  then show ?thesis by (simp add: l)
qed

lemma store_of_available: "available (store_of rs)"
  by (simp add: store_of_def fold_save_available empty_store_def)

lemma two_day_scan:
  "scanned_records st None (-50400000000) 36000000000 =
     live_records st (lists st (DateKey (- 1))) @ live_records st (lists st (DateKey 0))"
  by (simp add: scanned_records_def loop_instants.simps day_us_def date_key_def date_of_def)

lemma twenty_distinct: "distinct (map request_id twenty_requests)"
proof -
  have "inj_on (\<lambda>k. replicate k CHR ''x'') (set [1 ..< 21])"
    by (rule inj_onI) (metis length_replicate)
  then show ?thesis
    by (simp add: twenty_requests_def comp_def sample_request_def distinct_map)
qed

lemma twenty_store_scan:
  "scanned_records twenty_store None (-50400000000) 36000000000 = rev twenty_requests"
proof -
  have d0: "filter (\<lambda>r. date_of (timestamp r) = 0) twenty_requests = twenty_requests"
    by (simp add: twenty_requests_def sample_request_def date_of_def comp_def)
  have d1: "filter (\<lambda>r. date_of (timestamp r) = - 1) twenty_requests = []"
    by (simp add: twenty_requests_def sample_request_def date_of_def comp_def)
  show ?thesis
    unfolding two_day_scan twenty_store_def store_of_day [OF twenty_distinct] d0 d1 by simp
qed

lemma sample_distinct: "distinct (map request_id sample_requests)"
  by (simp add: sample_requests_def sample_request_def)

lemma sample_store_scan:
  "scanned_records sample_store None (-50400000000) 36000000000 = rev sample_requests"
proof -
  have d0: "filter (\<lambda>r. date_of (timestamp r) = 0) sample_requests = sample_requests"
    by (simp add: sample_requests_def sample_request_def date_of_def day_us_def)
  have d1: "filter (\<lambda>r. date_of (timestamp r) = - 1) sample_requests = []"
    by (simp add: sample_requests_def sample_request_def date_of_def day_us_def)
  show ?thesis
    unfolding two_day_scan sample_store_def store_of_day [OF sample_distinct] d0 d1 by simp
qed

subsection \<open>Performance metrics, error summary, alerts\<close>

text \<open>
  On the requests that the scan collects, when there are some and \<open>hours\<close> is not 0,
  \<open>p95_latency_ms\<close> is the element at the 0-indexed position \<open>floor(0.95 * n)\<close> of the
  ascending-sorted latency list, a position that is always inside the list; for the 20
  latencies 100, 200, ..., 2000, in any order, it is 2000.
\<close>

lemma p95_of_collected_requests:
  assumes "available st" and "hours \<noteq> 0" and "window_start now hours = Inr s"
    and "requests = filter (in_window s now) (scanned_records st model s now)"
    and "requests \<noteq> []"
  shows "\<exists>m. get_performance_metrics st now model hours = Inr m
           \<and> p95_latency_ms m =
               Some (sort (map latency_ms requests) ! nat \<lfloor>0.95 * real (length requests)\<rfloor>)
           \<and> nat \<lfloor>0.95 * real (length requests)\<rfloor> < length requests
           \<and> (mset (map latency_ms requests) = mset (map (\<lambda>k. 100 * real k) [1 ..< 21]) \<longrightarrow>
                p95_latency_ms m = Some 2000)"
proof -
  obtain m where m: "summarise requests hours = Inr m"
    and p: "p95_latency_ms m =
              Some (sort (map latency_ms requests) ! nat \<lfloor>real (length requests) * 0.95\<rfloor>)"
    using summarise_p95 [OF assms(5) assms(2)] by blast
  have g: "get_performance_metrics st now model hours = Inr m"
    using assms(5) m
    by (simp add: get_performance_metrics_scanned [OF assms(1) assms(3)] assms(4) [symmetric])
  have ne: "map latency_ms requests \<noteq> []" using assms(5) by simp
  have i: "nat \<lfloor>real (length requests) * 0.95\<rfloor> < length requests"
    using p95_index_in_range [OF ne] by simp
  have t: "mset (map latency_ms requests) = mset (map (\<lambda>k. 100 * real k) [1 ..< 21]) \<Longrightarrow>
           p95_latency_ms m = Some 2000"
    using twenty_sorted [of "map latency_ms requests"] p by simp
  show ?thesis
    using g p i t by (auto simp: mult.commute)
qed

lemma p95_of_twenty_requests:
  "\<exists>m. get_performance_metrics twenty_store 36000000000 None 24 = Inr m
         \<and> p95_latency_ms m = Some 2000"
proof -
  have a: "available twenty_store" by (simp add: twenty_store_def store_of_available)
  have h: "(24::int) \<noteq> 0" by simp
  have s: "window_start 36000000000 24 = Inr (- 50400000000)"
    by (simp add: window_start_def hour_us_def datetime_min_def datetime_max_def)
  have w: "filter (in_window (- 50400000000) 36000000000) (rev twenty_requests)
             = rev twenty_requests"
    by (simp add: twenty_requests_def in_window_def sample_request_def comp_def)
  have r: "rev twenty_requests
             = filter (in_window (- 50400000000) 36000000000)
                 (scanned_records twenty_store None (- 50400000000) 36000000000)"
    unfolding twenty_store_scan w ..
  have n: "rev twenty_requests \<noteq> []"
    by (simp add: twenty_requests_def upt_rec_numeral)
  have ml: "map latency_ms twenty_requests = map (\<lambda>k. 100 * real k) [1 ..< 21]"
    unfolding twenty_requests_def by (simp add: sample_request_def comp_def)
  have l: "mset (map latency_ms (rev twenty_requests))
             = mset (map (\<lambda>k. 100 * real k) [1 ..< 21])"
    by (simp only: rev_map [symmetric] mset_rev ml)
  show ?thesis
    using p95_of_collected_requests [OF a h s r n] l by blast
qed

lemma night_scan:
  "scanned_records st None 84600000000 88200000000 = live_records st (lists st (DateKey 0))"
  by (simp add: scanned_records_def loop_instants.simps day_us_def date_key_def date_of_def)

lemma night_store_facts:
  "available night_store"
  "scanned_records night_store None 84600000000 88200000000 = [evening_request]"
  "strings night_store (RequestKey ''e1'') = Some evening_request"
  "strings night_store (RequestKey ''n1'') = Some night_request"
  "live_records night_store (lists night_store (DateKey 1)) = [night_request]"
proof -
  have av: "available empty_store" by (simp add: empty_store_def)
  have dist: "distinct (map request_id [evening_request, night_request])"
    by (simp add: evening_request_def night_request_def sample_request_def)
  have d0: "filter (\<lambda>r. date_of (timestamp r) = 0) [evening_request, night_request]
              = [evening_request]"
    and d1: "filter (\<lambda>r. date_of (timestamp r) = 1) [evening_request, night_request]
              = [night_request]"
    by (simp_all add: evening_request_def night_request_def sample_request_def date_of_def
          day_us_def)
  show "available night_store" by (simp add: night_store_def store_of_available)
  show "scanned_records night_store None 84600000000 88200000000 = [evening_request]"
    unfolding night_scan night_store_def store_of_day [OF dist] d0 by simp
  show "live_records night_store (lists night_store (DateKey 1)) = [night_request]"
    unfolding night_store_def store_of_day [OF dist] d1 by simp
  have "strings night_store (RequestKey (request_id evening_request)) = Some evening_request"
    unfolding night_store_def store_of_def by (rule fold_save_record [OF av dist]) simp
  then show "strings night_store (RequestKey ''e1'') = Some evening_request"
    by (simp add: evening_request_def sample_request_def)
  have "strings night_store (RequestKey (request_id night_request)) = Some night_request"
    unfolding night_store_def store_of_def by (rule fold_save_record [OF av dist]) simp
  then show "strings night_store (RequestKey ''n1'') = Some night_request"
    by (simp add: night_request_def sample_request_def)
qed

lemma night_window_start: "window_start half_past_midnight 1 = Inr 84600000000"
  by (simp add: window_start_def half_past_midnight_def hour_us_def datetime_min_def
        datetime_max_def)

text \<open>
  C5, at an input where the code departs from it. The claim: whenever the window holds
  records, \<open>p95_latency_ms\<close> is the element at position \<open>floor(0.95 * n)\<close> of their
  ascending-sorted latencies. At 00:30 of day 1 with \<open>hours = 1\<close> the window runs from
  23:30 of day 0, and the two stored requests, of 23:40 (100 ms) and of 00:10 (900 ms),
  are both inside it: the claim gives the element at position \<open>floor(0.95 * 2) = 1\<close> of
  \<open>[100, 900]\<close>, which is 900. The day loop reads the bucket of day 0 and then stops,
  since 23:30 of day 1 is after the end; the request of 00:10 is never read, and the
  result counts one request and has a p95 of 100.
\<close>

theorem p95_misses_requests_after_midnight:
  "get_performance_metrics night_store half_past_midnight None 1 =
     Inr \<lparr>avg_latency_ms = 100, success_rate = 1, requests_per_hour = 1,
          total_requests = 1, min_latency_ms = Some 100, max_latency_ms = Some 100,
          p95_latency_ms = Some 100\<rparr>
   \<and> strings night_store (RequestKey ''e1'') = Some evening_request
   \<and> strings night_store (RequestKey ''n1'') = Some night_request
   \<and> live_records night_store (lists night_store (DateKey 1)) = [night_request]
   \<and> in_window (half_past_midnight - 1 * hour_us) half_past_midnight evening_request
   \<and> in_window (half_past_midnight - 1 * hour_us) half_past_midnight night_request
   \<and> map latency_ms [evening_request, night_request] = [100, 900]
   \<and> sort [100, 900 :: real] ! nat \<lfloor>0.95 * real (length [100, 900 :: real])\<rfloor> = 900"
proof -
  have w: "filter (in_window 84600000000 88200000000) [evening_request] = [evening_request]"
    by (simp add: in_window_def evening_request_def sample_request_def)
  have g: "get_performance_metrics night_store half_past_midnight None 1 =
     Inr \<lparr>avg_latency_ms = 100, success_rate = 1, requests_per_hour = 1,
          total_requests = 1, min_latency_ms = Some 100, max_latency_ms = Some 100,
          p95_latency_ms = Some 100\<rparr>"
    unfolding get_performance_metrics_scanned [OF night_store_facts(1) night_window_start]
    unfolding half_past_midnight_def night_store_facts(2) w
    by (simp add: summarise_def percentile95_def evening_request_def sample_request_def)
  have i: "in_window (half_past_midnight - 1 * hour_us) half_past_midnight evening_request"
    "in_window (half_past_midnight - 1 * hour_us) half_past_midnight night_request"
    "map latency_ms [evening_request, night_request] = [100, 900]"
    by (simp_all add: in_window_def half_past_midnight_def hour_us_def evening_request_def
          night_request_def sample_request_def)
  have p: "sort [100, 900 :: real] ! nat \<lfloor>0.95 * real (length [100, 900 :: real])\<rfloor> = 900"
    by simp
  show ?thesis
    using g night_store_facts(3,4,5) i p by blast
qed

text \<open>
  On the requests that the scan collects, \<open>total_errors\<close> is the number of those stamped
  inside the window with \<open>success\<close> false, and \<open>error_rate\<close> is
  \<open>total_errors / (total_errors + 100)\<close>.
\<close>

lemma error_rate_of_collected_requests:
  assumes "available st" and "window_start now hours = Inr s"
  shows "\<exists>es. get_error_summary st now hours = Inr es
           \<and> total_errors es =
               length (filter (\<lambda>r. in_window s now r \<and> \<not> success r)
                 (scanned_records st None s now))
           \<and> error_rate es = real (total_errors es) / (real (total_errors es) + 100)"
  by (simp add: get_error_summary_scanned [OF assms])

text \<open>
  C6, at an input where the code departs from it. The claim: \<open>total_errors\<close> is the
  number of records in the window with \<open>success\<close> false, and \<open>error_rate\<close> is
  \<open>total_errors / (total_errors + 100)\<close>. At 00:30 of day 1 with \<open>hours = 1\<close> the failed
  request of 00:10 is stored and inside the window, so the claim gives \<open>total_errors = 1\<close>
  and \<open>error_rate = 1 / 101\<close>. The day loop reads the bucket of day 0 only, and the
  summary has no error and an error rate of 0.
\<close>

theorem error_summary_misses_errors_after_midnight:
  "get_error_summary night_store half_past_midnight 1 =
     Inr \<lparr>total_errors = 0, error_types = Map.empty, error_rate = 0\<rparr>
   \<and> strings night_store (RequestKey ''n1'') = Some night_request
   \<and> live_records night_store (lists night_store (DateKey 1)) = [night_request]
   \<and> in_window (half_past_midnight - 1 * hour_us) half_past_midnight night_request
   \<and> \<not> success night_request"
proof -
  have w: "filter (\<lambda>r. in_window 84600000000 88200000000 r \<and> \<not> success r) [evening_request]
             = []"
    by (simp add: evening_request_def sample_request_def)
  have g: "get_error_summary night_store half_past_midnight 1 =
     Inr \<lparr>total_errors = 0, error_types = Map.empty, error_rate = 0\<rparr>"
    unfolding get_error_summary_scanned [OF night_store_facts(1) night_window_start]
    unfolding half_past_midnight_def night_store_facts(2) w
    by simp
  have i: "in_window (half_past_midnight - 1 * hour_us) half_past_midnight night_request"
    "\<not> success night_request"
    by (simp_all add: in_window_def half_past_midnight_def hour_us_def night_request_def
          sample_request_def)
  show ?thesis
    using g night_store_facts(4,5) i by blast
qed

text \<open>
  C8. With the store reachable, \<open>check_cost_alerts\<close> computes the cost metrics of the
  period from one day before now to now and returns exactly one alert, of type
  \<open>cost_alert\<close> and severity \<open>high\<close>, when their \<open>total_cost_usd\<close> is strictly greater
  than the configured threshold, and the empty list otherwise; at a total equal to the
  threshold it returns no alert.
\<close>

theorem cost_alert_threshold_check:
  assumes "available st"
  shows "\<exists>m. get_cost_metrics st now1 now2 None (Some (now1 - day_us)) (Some now2) = Inr m
           \<and> total_cost_usd m =
               sum_list (map cost_usd (scanned_records st None (now1 - day_us) now2))
           \<and> check_cost_alerts cfg st now1 now2 now3 =
               Inr (if total_cost_usd m > cost_alert_threshold cfg
                    then [\<lparr>alert_type = ''cost_alert'',
                           message = (total_cost_usd m, cost_alert_threshold cfg),
                           severity = ''high'', alert_timestamp = now3\<rparr>]
                    else [])
           \<and> (total_cost_usd m = cost_alert_threshold cfg \<longrightarrow>
                check_cost_alerts cfg st now1 now2 now3 = Inr [])"
  by (simp add: check_cost_alerts_def get_cost_metrics_scanned [OF assms])

theorem cost_alert_threshold_check_witness:
  "available sample_store
   \<and> sum_list (map cost_usd (scanned_records sample_store None (36000000000 - day_us) 36000000000))
       = cost_alert_threshold default_settings
   \<and> check_cost_alerts default_settings sample_store 36000000000 36000000000 36000000000 = Inr []
   \<and> check_cost_alerts (default_settings\<lparr>cost_alert_threshold := 99\<rparr>) sample_store
        36000000000 36000000000 36000000007
       = Inr [\<lparr>alert_type = ''cost_alert'', message = (100, 99), severity = ''high'',
               alert_timestamp = 36000000007\<rparr>]"
proof -
  have a: "available sample_store" by (simp add: sample_store_def store_of_available)
  have s: "36000000000 - day_us = -50400000000" by (simp add: day_us_def)
  have c: "sum_list (map cost_usd
             (scanned_records sample_store None (36000000000 - day_us) 36000000000)) = 100"
    unfolding s sample_store_scan by (simp add: sample_requests_def sample_request_def)
  have t: "cost_alert_threshold default_settings = 100"
    "cost_alert_threshold (default_settings\<lparr>cost_alert_threshold := 99\<rparr>) = 99"
    by (simp_all add: default_settings_def)
  show ?thesis
    using cost_alert_threshold_check [OF a, of 36000000000 36000000000 default_settings
        36000000000]
      cost_alert_threshold_check [OF a, of 36000000000 36000000000
        "default_settings\<lparr>cost_alert_threshold := 99\<rparr>" 36000000007]
      a
    unfolding c t by auto
qed

subsection \<open>Empty windows and division by zero\<close>

lemma empty_store_scan: "scanned_records empty_store model s e = []"
  by (simp add: scanned_records_def empty_store_def)

text \<open>
  With the store reachable, a period in which the scan finds no record gives the
  all-zero cost metrics, and a window in which no scanned record is stamped gives the
  all-zero performance metrics, for any \<open>hours\<close>.
\<close>

lemma nothing_scanned_all_zero:
  "available st \<Longrightarrow> scanned_records st model s e = [] \<Longrightarrow>
     get_cost_metrics st now1 now2 model (Some s) (Some e) =
       Inr \<lparr>total_cost_usd = 0, cost_per_request = 0, cost_per_token = 0,
            requests_count = 0, tokens_count = 0, period_start = s, period_end = e\<rparr>"
  "available st \<Longrightarrow> window_start now hours = Inr s \<Longrightarrow>
   filter (in_window s now) (scanned_records st model s now) = [] \<Longrightarrow>
     get_performance_metrics st now model hours =
       Inr \<lparr>avg_latency_ms = 0, success_rate = 0, requests_per_hour = 0,
            total_requests = 0, min_latency_ms = None, max_latency_ms = None,
            p95_latency_ms = None\<rparr>"
  by (simp_all add: get_cost_metrics_scanned get_performance_metrics_scanned no_requests_def)

text \<open>When \<open>get_performance_metrics\<close> divides by zero.\<close>

lemma performance_metrics_division_fault:
  assumes "available st" and "window_start now hours = Inr s"
  shows "get_performance_metrics st now model hours = Inl ZeroDivisionError \<longleftrightarrow>
           hours = 0 \<and> filter (in_window s now) (scanned_records st model s now) \<noteq> []"
proof (cases "filter (in_window s now) (scanned_records st model s now) = []")
  case True
  then show ?thesis
    by (simp add: get_performance_metrics_scanned [OF assms] no_requests_def)
next
  case ne: False
  show ?thesis
  proof (cases "hours = 0")
    case True
    have "get_performance_metrics st now model hours =
        summarise (filter (in_window s now) (scanned_records st model s now)) hours"
      using ne by (simp add: get_performance_metrics_scanned [OF assms])
    then show ?thesis
      using ne True by (simp add: summarise_def)
  next
    case False
    obtain m where "summarise (filter (in_window s now) (scanned_records st model s now)) hours
        = Inr m"
      using summarise_p95 [OF ne False] by blast
    then show ?thesis
      using False ne by (simp add: get_performance_metrics_scanned [OF assms])
  qed
qed

lemma one_day_scan:
  "scanned_records st None 3600000000 3600000000 = live_records st (lists st (DateKey 0))"
  by (simp add: scanned_records_def loop_instants.simps day_us_def date_key_def date_of_def)

text \<open>
  C7, at the input where the code departs from it. The claim: every derived rate is 0.0
  when its denominator is 0, and no division-by-zero fault is ever raised. With
  \<open>hours = 0\<close> the window is the single instant \<open>now\<close>; of the three stored requests the
  one stamped at that very instant is inside it, the list of requests is not empty, and
  \<open>len(requests) / hours\<close> raises \<open>ZeroDivisionError\<close> where the claim gives a
  \<open>requests_per_hour\<close> of 0.0.
\<close>

theorem zero_hours_division_fault:
  "get_performance_metrics sample_store 3600000000 None 0 = Inl ZeroDivisionError
   \<and> window_start 3600000000 0 = Inr 3600000000
   \<and> filter (in_window 3600000000 3600000000)
       (scanned_records sample_store None 3600000000 3600000000)
       = [sample_request ''r1'' 3600000000 300 40 True]"
proof -
  have a: "available sample_store" by (simp add: sample_store_def store_of_available)
  have ws: "window_start 3600000000 0 = Inr 3600000000"
    by (simp add: window_start_def datetime_min_def datetime_max_def)
  have d0: "filter (\<lambda>r. date_of (timestamp r) = 0) sample_requests = sample_requests"
    by (simp add: sample_requests_def sample_request_def date_of_def day_us_def)
  have sc: "scanned_records sample_store None 3600000000 3600000000 = rev sample_requests"
    unfolding one_day_scan sample_store_def store_of_day [OF sample_distinct] d0 ..
  have w: "filter (in_window 3600000000 3600000000) (rev sample_requests)
             = [sample_request ''r1'' 3600000000 300 40 True]"
    by (simp add: sample_requests_def in_window_def sample_request_def)
  show ?thesis
    by (simp add: get_performance_metrics_scanned [OF a ws] sc w summarise_def ws)
qed

subsection \<open>The days that the cost metrics cover\<close>

text \<open>
  The dates whose buckets a loop from \<open>cur\<close> to \<open>end_date\<close> reads: the date of the
  start and the following ones, as many as whole days fit between start and end.
\<close>

lemma date_of_next_day: "date_of (cur + day_us) = date_of cur + 1"
  by (simp add: date_of_def day_us_def)

lemma loop_instants_dates:
  "map date_of (loop_instants cur end_date) =
     map (\<lambda>k. date_of cur + int k) [0 ..< nat ((end_date - cur) div day_us + 1)]"
proof (induction cur end_date rule: loop_instants.induct)
  case (1 cur end_date)
  show ?case
  proof (cases "cur \<le> end_date")
    case True
    have d: "(end_date - (cur + day_us)) div day_us = (end_date - cur) div day_us - 1"
      by (simp add: day_us_def)
    have nn: "0 \<le> (end_date - cur) div day_us"
      using True by (simp add: day_us_def)
    then have n: "nat ((end_date - cur) div day_us + 1) = Suc (nat ((end_date - cur) div day_us))"
      by linarith
    have ih: "map date_of (loop_instants (cur + day_us) end_date) =
        map (\<lambda>k. date_of cur + 1 + int k) [0 ..< nat ((end_date - cur) div day_us)]"
      using "1.IH" [OF True] by (simp add: d date_of_next_day)
    show ?thesis
      using True
      by (subst loop_instants.simps)
        (simp add: ih n upt_conv_Cons map_Suc_upt [symmetric] comp_def del: upt_Suc)
  next
    case False
    then have "(end_date - cur) div day_us + 1 \<le> 0"
      by (simp add: day_us_def)
    then show ?thesis
      using False by (subst loop_instants.simps) simp
  qed
qed

text \<open>
  The bucket of the end date is read exactly when the time of day of the start is not
  after the time of day of the end.
\<close>

lemma small_div:
  fixes x D :: int
  assumes "- D < x" "x < D"
  shows "0 \<le> x div D \<longleftrightarrow> 0 \<le> x"
  using assms(1,2) pos_imp_zdiv_nonneg_iff by force

lemma div_diff_split:
  fixes a b D :: int
  assumes "0 < D"
  shows "(b - a) div D = (b div D - a div D) + (b mod D - a mod D) div D"
proof -
  have "b - a = (b mod D - a mod D) + D * (b div D - a div D)"
    by (simp add: algebra_simps)
  then have "(b - a) div D = ((b mod D - a mod D) + D * (b div D - a div D)) div D"
    by simp
  also have "\<dots> = (b div D - a div D) + (b mod D - a mod D) div D"
    using assms by (simp only: div_mult_self2) 
  finally show ?thesis .
qed

lemma end_date_visited:
  assumes "cur \<le> end_date"
  shows "date_of end_date \<in> set (map date_of (loop_instants cur end_date)) \<longleftrightarrow>
           cur mod day_us \<le> end_date mod day_us"
proof -
  have nn: "0 \<le> (end_date - cur) div day_us"
    using assms by (simp add: day_us_def)
  have s: "set (map date_of (loop_instants cur end_date)) =
             {date_of cur .. date_of cur + (end_date - cur) div day_us}"
  proof (rule set_eqI)
    fix d
    show "d \<in> set (map date_of (loop_instants cur end_date)) \<longleftrightarrow>
          d \<in> {date_of cur .. date_of cur + (end_date - cur) div day_us}"
    proof
      assume "d \<in> set (map date_of (loop_instants cur end_date))"
      then obtain k where "k < nat ((end_date - cur) div day_us + 1)" "d = date_of cur + int k"
        unfolding loop_instants_dates by auto
      then show "d \<in> {date_of cur .. date_of cur + (end_date - cur) div day_us}"
        using nn by auto
    next
      assume a: "d \<in> {date_of cur .. date_of cur + (end_date - cur) div day_us}"
      then have k: "nat (d - date_of cur) < nat ((end_date - cur) div day_us + 1)"
        and d: "d = date_of cur + int (nat (d - date_of cur))"
        by auto
      have "date_of cur + int (nat (d - date_of cur))
              \<in> (\<lambda>k. date_of cur + int k) ` {0 ..< nat ((end_date - cur) div day_us + 1)}"
        using k by (intro imageI) simp
      then show "d \<in> set (map date_of (loop_instants cur end_date))"
        unfolding loop_instants_dates using d by simp
    qed
  qed
  have D: "0 < day_us" by (simp add: day_us_def)
  have b: "- day_us < end_date mod day_us - cur mod day_us"
    "end_date mod day_us - cur mod day_us < day_us"
    using pos_mod_bound [OF D, of end_date] pos_mod_bound [OF D, of cur]
      pos_mod_sign [OF D, of end_date] pos_mod_sign [OF D, of cur] by linarith+
  have lo: "date_of cur \<le> date_of end_date"
    using assms D by (simp add: date_of_def zdiv_mono1)
  have "date_of end_date \<le> date_of cur + (end_date - cur) div day_us \<longleftrightarrow>
      0 \<le> (end_date mod day_us - cur mod day_us) div day_us"
    unfolding date_of_def div_diff_split [OF D, of end_date cur] by linarith
  also have "\<dots> \<longleftrightarrow> cur mod day_us \<le> end_date mod day_us"
    using small_div [OF b] by linarith
  finally show ?thesis
    unfolding s using lo by simp
qed

lemma morning_scan:
  "scanned_records st None evening_before next_morning = live_records st (lists st (DateKey 0))"
  by (simp add: scanned_records_def loop_instants.simps day_us_def date_key_def date_of_def
        evening_before_def next_morning_def)

text \<open>
  C10, at the input where the code departs from it. The claim: every day bucket whose
  date lies between the start date and the end date is summed. For a period from 22:00
  to 10:00 of the next day the loop visits 22:00 of the first day only, since 22:00 of
  the next day is after the end: the bucket of the end date is never read, and a request
  of 09:00, inside the period, is not counted.
\<close>

theorem end_day_bucket_skipped:
  "get_cost_metrics morning_store 0 0 None (Some evening_before) (Some next_morning) =
     Inr \<lparr>total_cost_usd = 0, cost_per_request = 0, cost_per_token = 0,
          requests_count = 0, tokens_count = 0,
          period_start = evening_before, period_end = next_morning\<rparr>
   \<and> live_records morning_store (lists morning_store (DateKey 1)) = [morning_request]
   \<and> date_of evening_before = 0 \<and> date_of next_morning = 1
   \<and> date_of (timestamp morning_request) = 1
   \<and> evening_before \<le> timestamp morning_request
   \<and> timestamp morning_request \<le> next_morning"
proof -
  have a: "available morning_store" by (simp add: morning_store_def store_of_available)
  have dist: "distinct (map request_id [morning_request])" by simp
  have d0: "filter (\<lambda>r. date_of (timestamp r) = 0) [morning_request] = []"
    and d1: "filter (\<lambda>r. date_of (timestamp r) = 1) [morning_request] = [morning_request]"
    by (simp_all add: morning_request_def sample_request_def date_of_def day_us_def)
  have sc: "scanned_records morning_store None evening_before next_morning = []"
    unfolding morning_scan morning_store_def store_of_day [OF dist] d0 by simp
  have l1: "live_records morning_store (lists morning_store (DateKey 1)) = [morning_request]"
    unfolding morning_store_def store_of_day [OF dist] d1 by simp
  show ?thesis
    by (simp add: get_cost_metrics_scanned [OF a] sc l1)
      (simp add: morning_request_def sample_request_def date_of_def day_us_def
         evening_before_def next_morning_def)
qed

text \<open>
  The cost metrics are sums over all scanned records, whatever their timestamps. Here
  the period is a quarter of an hour in which no request is stamped, and the three
  requests of that day are counted.
\<close>

lemma cost_metrics_ignore_timestamps:
  "get_cost_metrics sample_store 0 0 None (Some 9000000000) (Some 9900000000) =
     Inr \<lparr>total_cost_usd = 100, cost_per_request = 100 / 3, cost_per_token = 100 / 450,
          requests_count = 3, tokens_count = 450,
          period_start = 9000000000, period_end = 9900000000\<rparr>
   \<and> filter (in_window 9000000000 9900000000) sample_requests = []"
proof -
  have a: "available sample_store" by (simp add: sample_store_def store_of_available)
  have d0: "filter (\<lambda>r. date_of (timestamp r) = 0) sample_requests = sample_requests"
    by (simp add: sample_requests_def sample_request_def date_of_def day_us_def)
  have os: "\<And>st. scanned_records st None 9000000000 9900000000
              = live_records st (lists st (DateKey 0))"
    by (simp add: scanned_records_def loop_instants.simps day_us_def date_key_def date_of_def)
  have sc: "scanned_records sample_store None 9000000000 9900000000 = rev sample_requests"
    unfolding os sample_store_def store_of_day [OF sample_distinct] d0 ..
  show ?thesis
    by (simp add: get_cost_metrics_scanned [OF a] sc)
      (simp add: sample_requests_def sample_request_def in_window_def)
qed

end
